theory Spec2Isabelle
  imports Main "HOL-Library.Word"
begin

section \<open>Wire records of EmcEspNow.h\<close>

text \<open>
  The header declares its wire records as packed structs of \<^verbatim>\<open>uint8_t\<close>, \<^verbatim>\<open>float\<close> and
  \<^verbatim>\<open>int32_t\<close> members. A declaration is kept as the list of its members in declaration
  order; \<open>packed_layout\<close> places the members the way \<^verbatim>\<open>__attribute__((packed))\<close> does:
  every member starts where the previous one ends.
\<close>

type_synonym u8 = "8 word"
type_synonym u32 = "32 word"
type_synonym bytes = "u8 list"

datatype ctype = Uint8 | Float | Int32 | Array ctype nat

fun sizeof :: "ctype \<Rightarrow> nat" where
  "sizeof Uint8 = 1"
| "sizeof Float = 4"
| "sizeof Int32 = 4"
| "sizeof (Array t n) = n * sizeof t"

type_synonym cstruct = "(string \<times> ctype) list"

fun packed_layout :: "nat \<Rightarrow> cstruct \<Rightarrow> (string \<times> nat \<times> nat) list" where
  "packed_layout off [] = []"
| "packed_layout off ((name, t) # fs) =
     (name, off, sizeof t) # packed_layout (off + sizeof t) fs"

definition sizeof_struct :: "cstruct \<Rightarrow> nat" where
  "sizeof_struct fs = sum_list (map (\<lambda>f. sizeof (snd f)) fs)"

definition slave_data_t :: cstruct where
  "slave_data_t = [(''button_data'', Array Uint8 16), (''data'', Array Uint8 64)]"

definition master_cmd_t :: cstruct where
  "master_cmd_t =
     [(''mainId'', Uint8), (''subId'', Uint8), (''index1'', Uint8), (''index2'', Uint8),
      (''value'', Float), (''valueInt'', Int32)]"

section \<open>State of an EmcEspNow object and of the transport\<close>

text \<open>A link address is the six bytes of \<^verbatim>\<open>uint8_t peer_mac[6]\<close>.\<close>

datatype mac = Mac u8 u8 u8 u8 u8 u8

definition BROADCAST_MAC_SLAVE :: mac where
  "BROADCAST_MAC_SLAVE = Mac 0xFF 0xFF 0xFF 0xFF 0xFF 0xFD"

definition BROADCAST_MAC_MASTER :: mac where
  "BROADCAST_MAC_MASTER = Mac 0xFF 0xFF 0xFF 0xFF 0xFF 0xFE"

definition BROADCAST_SLAVE_MESSAGE :: string where
  "BROADCAST_SLAVE_MESSAGE = ''EMCFFBV2 Slave!''"

definition BROADCAST_MASTER_MESSAGE :: string where
  "BROADCAST_MASTER_MESSAGE = ''EMCFFBV2 Master!''"

record peers_t =
  peerID :: u8
  peer_mac :: mac

text \<open>
  What \<^verbatim>\<open>esp_now_send\<close> was asked to transmit. \<open>sendBroadcast\<close> passes the address of the
  message pointer, not the text, so only the destination and the length of a broadcast are
  recorded; a unicast carries the bytes of the snapshot it was given.
\<close>

datatype esp_now_tx = Broadcast mac nat | Unicast mac bytes

datatype esp_now_send_status_t = ESP_NOW_SEND_SUCCESS | ESP_NOW_SEND_FAIL

datatype esp_err_t = ESP_OK | ESP_ERR_ESPNOW_FULL | ESP_ERR_ESPNOW_EXIST

record esp_now_recv_info_t =
  src_addr :: mac
  des_addr :: mac

text \<open>
  The members of the class, followed by the part of the ESP-NOW driver the class talks to.
  The driver is not part of the repository: it is represented by its table of registered
  peers \<open>esp_peer_list\<close>, the number of entries that table can hold \<open>esp_max_peers\<close>
  (a parameter; nothing below fixes its value), and the log \<open>tx\<close> of the datagrams handed
  to \<^verbatim>\<open>esp_now_send\<close>, oldest first. The snapshot members are kept as the bytes of
  their object representation, which is what \<^verbatim>\<open>memset\<close>, \<^verbatim>\<open>memcmp\<close> and
  \<^verbatim>\<open>memcpy\<close> work on.
\<close>

record emc =
  slaveSendData :: bytes
  masterRecvData :: bytes
  masterCmdData :: bytes
  lastmasterCmdData :: bytes
  peers :: "peers_t list"
  lastSlaveSendData :: bytes
  broadcastMillis :: u32
  isMaster :: bool
  masterHasCommand :: bool
  esp_peer_list :: "mac list"
  esp_max_peers :: nat
  tx :: "esp_now_tx list"

text \<open>Every snapshot member is an object of its struct type.\<close>

definition buffers_sized :: "emc \<Rightarrow> bool" where
  "buffers_sized s \<longleftrightarrow>
     length (slaveSendData s) = sizeof_struct slave_data_t \<and>
     length (lastSlaveSendData s) = sizeof_struct slave_data_t \<and>
     length (masterRecvData s) = sizeof_struct slave_data_t \<and>
     length (masterCmdData s) = sizeof_struct master_cmd_t \<and>
     length (lastmasterCmdData s) = sizeof_struct master_cmd_t"

text \<open>
  A freshly constructed object: the default member initialisers of the header, no peers,
  and a driver with an empty peer table of the given capacity.
\<close>

definition emc_init :: "nat \<Rightarrow> emc" where
  "emc_init cap =
     \<lparr> slaveSendData = replicate (sizeof_struct slave_data_t) 0,
       masterRecvData = replicate (sizeof_struct slave_data_t) 0,
       masterCmdData = replicate (sizeof_struct master_cmd_t) 0,
       lastmasterCmdData = replicate (sizeof_struct master_cmd_t) 0,
       peers = [],
       lastSlaveSendData = replicate (sizeof_struct slave_data_t) 0,
       broadcastMillis = 0,
       isMaster = False,
       masterHasCommand = False,
       esp_peer_list = [],
       esp_max_peers = cap,
       tx = [] \<rparr>"

section \<open>The C library calls on snapshot objects\<close>

text \<open>
  Each call in the source is made on a whole object with \<open>n\<close> the \<^verbatim>\<open>sizeof\<close> of its type:
  \<^verbatim>\<open>memset(&x, 0, n)\<close> leaves \<open>n\<close> zero bytes, \<^verbatim>\<open>memcpy(&x, src, n)\<close> leaves the first
  \<open>n\<close> bytes of \<open>src\<close>, and \<^verbatim>\<open>memcmp(a, b, n) != 0\<close> compares the first \<open>n\<close> bytes.
\<close>

definition memset_zero :: "nat \<Rightarrow> bytes" where
  "memset_zero n = replicate n 0"

definition memcpy :: "bytes \<Rightarrow> nat \<Rightarrow> bytes" where
  "memcpy src n = take n src"

definition memcmp_differs :: "bytes \<Rightarrow> bytes \<Rightarrow> nat \<Rightarrow> bool" where
  "memcmp_differs a b n \<longleftrightarrow> take n a \<noteq> take n b"

section \<open>The ESP-NOW driver calls\<close>

text \<open>
  \<^verbatim>\<open>esp_now_is_peer_exist\<close> looks the address up in the driver's table;
  \<^verbatim>\<open>esp_now_add_peer\<close> refuses an address that is already registered and refuses any
  address once the table is full, and otherwise registers it; \<^verbatim>\<open>esp_now_del_peer\<close>
  removes the address; \<^verbatim>\<open>esp_now_send\<close> appends to the log.
\<close>

definition esp_now_is_peer_exist :: "emc \<Rightarrow> mac \<Rightarrow> bool" where
  "esp_now_is_peer_exist s a \<longleftrightarrow> a \<in> set (esp_peer_list s)"

definition esp_now_add_peer :: "emc \<Rightarrow> mac \<Rightarrow> esp_err_t \<times> emc" where
  "esp_now_add_peer s a =
     (if a \<in> set (esp_peer_list s) then (ESP_ERR_ESPNOW_EXIST, s)
      else if esp_max_peers s \<le> length (esp_peer_list s) then (ESP_ERR_ESPNOW_FULL, s)
      else (ESP_OK, s\<lparr>esp_peer_list := esp_peer_list s @ [a]\<rparr>))"

definition esp_now_del_peer :: "emc \<Rightarrow> mac \<Rightarrow> emc" where
  "esp_now_del_peer s a = s\<lparr>esp_peer_list := removeAll a (esp_peer_list s)\<rparr>"

definition esp_now_send :: "emc \<Rightarrow> esp_now_tx \<Rightarrow> emc" where
  "esp_now_send s d = s\<lparr>tx := tx s @ [d]\<rparr>"

section \<open>EmcEspNow.cpp\<close>

definition resetData :: "emc \<Rightarrow> emc" where
  "resetData s =
     s\<lparr> slaveSendData := memset_zero (sizeof_struct slave_data_t),
        lastSlaveSendData := memset_zero (sizeof_struct slave_data_t),
        masterRecvData := memset_zero (sizeof_struct slave_data_t),
        masterCmdData := memset_zero (sizeof_struct master_cmd_t),
        lastmasterCmdData := memset_zero (sizeof_struct master_cmd_t) \<rparr>"

text \<open>\<^verbatim>\<open>new_peer.peerID = peers.size()\<close> narrows the size to \<^verbatim>\<open>uint8_t\<close>.\<close>

definition addPeer :: "emc \<Rightarrow> mac \<Rightarrow> emc" where
  "addPeer s peer_addr =
     (if \<not> esp_now_is_peer_exist s peer_addr then
        (case esp_now_add_peer s peer_addr of
           (ESP_OK, s') \<Rightarrow>
             s'\<lparr>peers := peers s' @ [\<lparr>peerID = of_nat (length (peers s')), peer_mac = peer_addr\<rparr>]\<rparr>
         | (_, s') \<Rightarrow> s')
      else s)"

text \<open>
  The loop of \<open>removePeer\<close>: the position of the first entry whose address compares equal,
  where the loop erases and breaks, or \<open>None\<close> when it reaches the end.
\<close>

fun find_peer :: "mac \<Rightarrow> peers_t list \<Rightarrow> nat option" where
  "find_peer m [] = None"
| "find_peer m (p # ps) =
     (if peer_mac p = m then Some 0 else map_option Suc (find_peer m ps))"

definition erase :: "'a list \<Rightarrow> nat \<Rightarrow> 'a list" where
  "erase xs i = take i xs @ drop (Suc i) xs"

definition removePeer :: "emc \<Rightarrow> mac \<Rightarrow> emc" where
  "removePeer s m =
     (let s1 = resetData s in
      case find_peer m (peers s1) of
        None \<Rightarrow> s1
      | Some i \<Rightarrow> (let s2 = esp_now_del_peer s1 m in s2\<lparr>peers := erase (peers s2) i\<rparr>))"

definition sendBroadcast :: "emc \<Rightarrow> emc" where
  "sendBroadcast s =
     (if \<not> isMaster s
      then esp_now_send s (Broadcast BROADCAST_MAC_SLAVE (length BROADCAST_SLAVE_MESSAGE))
      else esp_now_send s (Broadcast BROADCAST_MAC_MASTER (length BROADCAST_MASTER_MESSAGE)))"

definition sendUnicast :: "emc \<Rightarrow> mac \<Rightarrow> bytes \<Rightarrow> nat \<Rightarrow> emc" where
  "sendUnicast s m d len = esp_now_send s (Unicast m (take len d))"

text \<open>
  \<open>begin\<close>, with the result of \<^verbatim>\<open>esp_now_init\<close> as the argument \<open>init_ok\<close>: when the driver
  fails to start the function returns before the role is stored and before the broadcast
  identity is added.
\<close>

definition begin_emc :: "emc \<Rightarrow> bool \<Rightarrow> bool \<Rightarrow> emc" where
  "begin_emc s is_master init_ok =
     (if \<not> init_ok then s
      else
        (let s1 = s\<lparr>isMaster := is_master\<rparr>;
             s2 = (if \<not> is_master then addPeer s1 BROADCAST_MAC_SLAVE
                   else addPeer s1 BROADCAST_MAC_MASTER)
         in resetData s2))"

text \<open>
  The send loop of the master branch of \<open>update\<close>,
  \<^verbatim>\<open>for (uint8_t i = 1; i < peers.size(); i++)\<close>. The counter is eight bits wide and
  \<open>i + 1\<close> wraps from 255 to 0; \<open>None\<close> stands for a loop that never ends.
\<close>

partial_function (option) update_master_loop :: "u8 \<Rightarrow> emc \<Rightarrow> emc option" where
  "update_master_loop i s =
     (if unat i < length (peers s)
      then update_master_loop (i + 1)
             (sendUnicast s (peer_mac (peers s ! unat i)) (masterCmdData s)
                (sizeof_struct master_cmd_t))
      else Some s)"

text \<open>
  \<open>update\<close>. The two arguments are the two readings of \<^verbatim>\<open>millis()\<close> the searching branch
  makes, the first in the comparison and the second in the assignment; \<^verbatim>\<open>unsigned long\<close>
  has 32 bits on the target and the subtraction wraps. \<^verbatim>\<open>peers[1]\<close> on a vector with
  fewer than two elements has no defined behaviour and is the fault \<open>IndexOutOfRange\<close>.
\<close>

datatype fault = IndexOutOfRange

definition update :: "emc \<Rightarrow> u32 \<Rightarrow> u32 \<Rightarrow> (fault + emc) option" where
  "update s millis1 millis2 =
     (if \<not> isMaster s \<and> length (peers s) = 1 then
        (if millis1 - broadcastMillis s > 100
         then Some (Inr (sendBroadcast (s\<lparr>broadcastMillis := millis2\<rparr>)))
         else Some (Inr s))
      else if isMaster s then map_option Inr (update_master_loop 1 s)
      else if masterHasCommand s then Some (Inr s)
      else if memcmp_differs (slaveSendData s) (lastSlaveSendData s) (sizeof_struct slave_data_t)
      then
        (if 1 < length (peers s)
         then
           (let s1 = sendUnicast s (peer_mac (peers s ! 1)) (slaveSendData s)
                       (sizeof_struct slave_data_t)
            in Some (Inr (s1\<lparr>lastSlaveSendData :=
                              memcpy (slaveSendData s1) (sizeof_struct slave_data_t)\<rparr>)))
         else Some (Inl IndexOutOfRange))
      else Some (Inr s))"

text \<open>
  \<open>onReceive\<close>. The transport delivers \<open>len\<close> bytes at \<open>data\<close>, so \<open>len\<close> is the length of
  the payload.
\<close>

definition onReceive :: "emc \<Rightarrow> esp_now_recv_info_t \<Rightarrow> bytes \<Rightarrow> emc" where
  "onReceive s recv_info data =
     (let len = length data in
      if isMaster s then
        (let s1 = (if des_addr recv_info = BROADCAST_MAC_SLAVE then
                     (let s' = sendBroadcast s in
                      if \<not> esp_now_is_peer_exist s' (src_addr recv_info)
                      then addPeer s' (src_addr recv_info) else s')
                   else s)
         in if len = sizeof_struct slave_data_t then
              (if memcmp_differs (masterRecvData s1) data (sizeof_struct slave_data_t)
               then s1\<lparr>masterRecvData := memcpy data (sizeof_struct slave_data_t)\<rparr>
               else s1)
            else s1)
      else
        (let s1 = (if des_addr recv_info = BROADCAST_MAC_MASTER then
                     (if \<not> esp_now_is_peer_exist s (src_addr recv_info)
                      then addPeer s (src_addr recv_info) else s)
                   else s)
         in if len = sizeof_struct master_cmd_t then
              (let s2 = s1\<lparr>masterHasCommand := True\<rparr>;
                   s3 = (if memcmp_differs (masterCmdData s2) data (sizeof_struct master_cmd_t)
                         then s2\<lparr>masterCmdData := memcpy data (sizeof_struct master_cmd_t)\<rparr>
                         else s2)
               in s3\<lparr>masterHasCommand := False\<rparr>)
            else s1))"

definition onSend :: "emc \<Rightarrow> mac \<Rightarrow> esp_now_send_status_t \<Rightarrow> emc" where
  "onSend s mac_addr status =
     (if status = ESP_NOW_SEND_FAIL then removePeer s mac_addr else s)"

section \<open>Predicates on nodes\<close>

text \<open>All five snapshot members hold zero bytes only, as \<open>resetData\<close> leaves them.\<close>

definition caches_cleared :: "emc \<Rightarrow> bool" where
  "caches_cleared s \<longleftrightarrow>
     slaveSendData s = replicate (sizeof_struct slave_data_t) 0 \<and>
     lastSlaveSendData s = replicate (sizeof_struct slave_data_t) 0 \<and>
     masterRecvData s = replicate (sizeof_struct slave_data_t) 0 \<and>
     masterCmdData s = replicate (sizeof_struct master_cmd_t) 0 \<and>
     lastmasterCmdData s = replicate (sizeof_struct master_cmd_t) 0"

text \<open>
  The directory and the driver agree: no address occurs twice in \<open>peers\<close>, and every
  address in \<open>peers\<close> is registered with the driver.
\<close>

definition dir_registered :: "emc \<Rightarrow> bool" where
  "dir_registered s \<longleftrightarrow>
     distinct (map peer_mac (peers s)) \<and> set (map peer_mac (peers s)) \<subseteq> set (esp_peer_list s)"

text \<open>
  The nodes the program can reach: a constructed object, then any sequence of calls of the
  public members and of the two driver callbacks, of writes of the input scan into the
  outgoing snapshot, of writes of a command, and of the copy of the command into
  \<open>lastmasterCmdData\<close> that the main loop makes after it has looked at a new command.
\<close>

inductive reachable :: "emc \<Rightarrow> bool" where
  constructed: "reachable (emc_init cap)"
| began: "reachable s \<Longrightarrow> reachable (begin_emc s is_master init_ok)"
| added: "reachable s \<Longrightarrow> reachable (addPeer s a)"
| removed: "reachable s \<Longrightarrow> reachable (removePeer s a)"
| updated: "reachable s \<Longrightarrow> update s millis1 millis2 = Some (Inr s') \<Longrightarrow> reachable s'"
| received: "reachable s \<Longrightarrow> reachable (onReceive s recv_info d)"
| sent: "reachable s \<Longrightarrow> reachable (onSend s a status)"
| scanned: "reachable s \<Longrightarrow> length d = sizeof_struct slave_data_t \<Longrightarrow>
            reachable (s\<lparr>slaveSendData := d\<rparr>)"
| commanded: "reachable s \<Longrightarrow> length d = sizeof_struct master_cmd_t \<Longrightarrow>
            reachable (s\<lparr>masterCmdData := d\<rparr>)"
| consumed: "reachable s \<Longrightarrow> reachable (s\<lparr>lastmasterCmdData := masterCmdData s\<rparr>)"

text \<open>The invariant of the nodes the program can reach.\<close>

definition node_inv :: "emc \<Rightarrow> bool" where
  "node_inv s \<longleftrightarrow>
     buffers_sized s \<and> dir_registered s \<and> length (esp_peer_list s) \<le> esp_max_peers s"

section \<open>Example nodes\<close>

text \<open>
  Concrete nodes on which the theorems below are instantiated: a slave whose input scan has
  set the first bit of \<open>button_data\<close>, once after it has learned a master and once on an
  object whose \<open>begin\<close> returned early because the driver did not start.
\<close>

definition ex_master_mac :: mac where
  "ex_master_mac = Mac 0x24 0x6F 0x28 0x01 0x02 0x03"

definition ex_pressed :: bytes where
  "ex_pressed = 1 # replicate 79 0"

definition ex_paired_slave :: emc where
  "ex_paired_slave =
     (addPeer (begin_emc (emc_init 20) False True) ex_master_mac)\<lparr>slaveSendData := ex_pressed\<rparr>"

definition ex_searching_slave :: emc where
  "ex_searching_slave = begin_emc (emc_init 20) False True"

definition ex_unstarted_slave :: emc where
  "ex_unstarted_slave = (begin_emc (emc_init 20) False False)\<lparr>slaveSendData := ex_pressed\<rparr>"

text \<open>
  A master that has heard the discovery broadcasts of two slaves, and the same master after
  a send to the first slave failed and a third slave was heard.
\<close>

definition ex_slave_a :: mac where
  "ex_slave_a = Mac 0x24 0x6F 0x28 0x00 0x00 0x0A"

definition ex_slave_b :: mac where
  "ex_slave_b = Mac 0x24 0x6F 0x28 0x00 0x00 0x0B"

definition ex_slave_c :: mac where
  "ex_slave_c = Mac 0x24 0x6F 0x28 0x00 0x00 0x0C"

definition ex_ping :: "mac \<Rightarrow> esp_now_recv_info_t" where
  "ex_ping m = \<lparr>src_addr = m, des_addr = BROADCAST_MAC_SLAVE\<rparr>"

definition ex_master3 :: emc where
  "ex_master3 =
     onReceive
       (onReceive (begin_emc (emc_init 20) True True) (ex_ping ex_slave_a) (replicate 15 0))
       (ex_ping ex_slave_b) (replicate 15 0)"

definition ex_rejoin_master :: emc where
  "ex_rejoin_master =
     onReceive (onSend ex_master3 ex_slave_a ESP_NOW_SEND_FAIL) (ex_ping ex_slave_c)
       (replicate 15 0)"

text \<open>
  A command snapshot: \<open>mainId\<close> 5, \<open>subId\<close> 1, \<open>index1\<close> 0, \<open>index2\<close> 2, the four bytes
  of the float 3.5 and the four bytes of the integer -1, least significant byte first.
\<close>

definition ex_cmd :: bytes where
  "ex_cmd = [5, 1, 0, 2, 0x00, 0x00, 0x60, 0x40, 0xFF, 0xFF, 0xFF, 0xFF]"

text \<open>
  The master above after the application has written the command and a data frame with a
  changed snapshot has arrived from the first slave.
\<close>

definition ex_data_frame :: esp_now_recv_info_t where
  "ex_data_frame = \<lparr>src_addr = ex_slave_a, des_addr = ex_master_mac\<rparr>"

definition ex_busy_master :: emc where
  "ex_busy_master = onReceive (ex_master3\<lparr>masterCmdData := ex_cmd\<rparr>) ex_data_frame ex_pressed"

section \<open>Sizes of the wire records\<close>

lemma sizeof_slave_data_t [simp]: "sizeof_struct slave_data_t = 80"
  by (simp add: sizeof_struct_def slave_data_t_def)

lemma sizeof_master_cmd_t [simp]: "sizeof_struct master_cmd_t = 12"
  by (simp add: sizeof_struct_def master_cmd_t_def)

text \<open>
  C8. The slave snapshot is the 16-byte block \<open>button_data\<close> at offset 0 followed by the
  64-byte block \<open>data\<close> at offset 16, 80 bytes in all. The command snapshot is \<open>mainId\<close>,
  \<open>subId\<close>, \<open>index1\<close> and \<open>index2\<close> of one byte each at offsets 0 to 3, the four-byte
  \<open>value\<close> at offset 4 and the four-byte \<open>valueInt\<close> at offset 8, 12 bytes in all. Each
  member starts where the one before it ends and the size of the record is the end of its
  last member, so neither record holds a gap.
\<close>

theorem wire_records_packed:
  "packed_layout 0 slave_data_t = [(''button_data'', 0, 16), (''data'', 16, 64)] \<and>
   sizeof_struct slave_data_t = 80 \<and>
   packed_layout 0 master_cmd_t =
     [(''mainId'', 0, 1), (''subId'', 1, 1), (''index1'', 2, 1), (''index2'', 3, 1),
      (''value'', 4, 4), (''valueInt'', 8, 4)] \<and>
   sizeof_struct master_cmd_t = 12"
  by (simp add: slave_data_t_def master_cmd_t_def sizeof_struct_def)

section \<open>The example nodes, evaluated\<close>

lemma ex_pressed_simps [simp]:
  "length ex_pressed = 80"
  "take 80 ex_pressed = ex_pressed"
  "ex_pressed \<noteq> replicate 80 0"
  "replicate 80 0 \<noteq> ex_pressed"
  by (auto simp: ex_pressed_def dest: arg_cong [where f = hd])

lemma ex_paired_slave_eq:
  "ex_paired_slave =
     \<lparr> slaveSendData = ex_pressed,
       masterRecvData = replicate 80 0,
       masterCmdData = replicate 12 0,
       lastmasterCmdData = replicate 12 0,
       peers = [\<lparr>peerID = 0, peer_mac = BROADCAST_MAC_SLAVE\<rparr>,
                \<lparr>peerID = 1, peer_mac = ex_master_mac\<rparr>],
       lastSlaveSendData = replicate 80 0,
       broadcastMillis = 0,
       isMaster = False,
       masterHasCommand = False,
       esp_peer_list = [BROADCAST_MAC_SLAVE, ex_master_mac],
       esp_max_peers = 20,
       tx = [] \<rparr>"
  by (simp add: ex_paired_slave_def begin_emc_def emc_init_def addPeer_def resetData_def
      esp_now_is_peer_exist_def esp_now_add_peer_def memset_zero_def Let_def
      BROADCAST_MAC_SLAVE_def ex_master_mac_def)

lemmas ex_macs =
  ex_slave_a_def ex_slave_b_def ex_slave_c_def BROADCAST_MAC_SLAVE_def BROADCAST_MAC_MASTER_def
  ex_master_mac_def

lemmas emc_defs =
  begin_emc_def emc_init_def addPeer_def resetData_def esp_now_is_peer_exist_def
  esp_now_add_peer_def memset_zero_def Let_def onReceive_def onSend_def removePeer_def
  sendBroadcast_def esp_now_send_def esp_now_del_peer_def erase_def memcmp_differs_def
  memcpy_def

lemma ex_master3_eq:
  "ex_master3 =
     \<lparr> slaveSendData = replicate 80 0,
       masterRecvData = replicate 80 0,
       masterCmdData = replicate 12 0,
       lastmasterCmdData = replicate 12 0,
       peers = [\<lparr>peerID = 0, peer_mac = BROADCAST_MAC_MASTER\<rparr>,
                \<lparr>peerID = 1, peer_mac = ex_slave_a\<rparr>, \<lparr>peerID = 2, peer_mac = ex_slave_b\<rparr>],
       lastSlaveSendData = replicate 80 0,
       broadcastMillis = 0,
       isMaster = True,
       masterHasCommand = False,
       esp_peer_list = [BROADCAST_MAC_MASTER, ex_slave_a, ex_slave_b],
       esp_max_peers = 20,
       tx = [Broadcast BROADCAST_MAC_MASTER 16, Broadcast BROADCAST_MAC_MASTER 16] \<rparr>"
  by (simp add: ex_master3_def ex_ping_def emc_defs ex_macs BROADCAST_MASTER_MESSAGE_def)

lemma ex_busy_master_eq:
  "ex_busy_master =
     \<lparr> slaveSendData = replicate 80 0,
       masterRecvData = ex_pressed,
       masterCmdData = ex_cmd,
       lastmasterCmdData = replicate 12 0,
       peers = [\<lparr>peerID = 0, peer_mac = BROADCAST_MAC_MASTER\<rparr>,
                \<lparr>peerID = 1, peer_mac = ex_slave_a\<rparr>, \<lparr>peerID = 2, peer_mac = ex_slave_b\<rparr>],
       lastSlaveSendData = replicate 80 0,
       broadcastMillis = 0,
       isMaster = True,
       masterHasCommand = False,
       esp_peer_list = [BROADCAST_MAC_MASTER, ex_slave_a, ex_slave_b],
       esp_max_peers = 20,
       tx = [Broadcast BROADCAST_MAC_MASTER 16, Broadcast BROADCAST_MAC_MASTER 16] \<rparr>"
  by (simp add: ex_busy_master_def ex_data_frame_def ex_master3_eq onReceive_def Let_def
      memcmp_differs_def memcpy_def ex_macs)

section \<open>What addPeer and sendBroadcast leave alone\<close>

lemma addPeer_fields [simp]:
  "slaveSendData (addPeer s a) = slaveSendData s"
  "lastSlaveSendData (addPeer s a) = lastSlaveSendData s"
  "masterRecvData (addPeer s a) = masterRecvData s"
  "masterCmdData (addPeer s a) = masterCmdData s"
  "lastmasterCmdData (addPeer s a) = lastmasterCmdData s"
  "isMaster (addPeer s a) = isMaster s"
  "masterHasCommand (addPeer s a) = masterHasCommand s"
  "broadcastMillis (addPeer s a) = broadcastMillis s"
  "esp_max_peers (addPeer s a) = esp_max_peers s"
  "tx (addPeer s a) = tx s"
  by (simp_all add: addPeer_def esp_now_add_peer_def esp_now_is_peer_exist_def)

lemma sendBroadcast_fields [simp]:
  "slaveSendData (sendBroadcast s) = slaveSendData s"
  "lastSlaveSendData (sendBroadcast s) = lastSlaveSendData s"
  "masterRecvData (sendBroadcast s) = masterRecvData s"
  "masterCmdData (sendBroadcast s) = masterCmdData s"
  "lastmasterCmdData (sendBroadcast s) = lastmasterCmdData s"
  "isMaster (sendBroadcast s) = isMaster s"
  "masterHasCommand (sendBroadcast s) = masterHasCommand s"
  "peers (sendBroadcast s) = peers s"
  "esp_peer_list (sendBroadcast s) = esp_peer_list s"
  "esp_max_peers (sendBroadcast s) = esp_max_peers s"
  by (simp_all add: sendBroadcast_def esp_now_send_def)

lemma addPeer_cases:
  "addPeer s a =
     (if a \<in> set (esp_peer_list s) \<or> esp_max_peers s \<le> length (esp_peer_list s) then s
      else s\<lparr>esp_peer_list := esp_peer_list s @ [a],
             peers := peers s @ [\<lparr>peerID = of_nat (length (peers s)), peer_mac = a\<rparr>]\<rparr>)"
  by (simp add: addPeer_def esp_now_add_peer_def esp_now_is_peer_exist_def)

section \<open>update on a slave\<close>

text \<open>
  C1. A slave with at least two directory entries that is not inside its receive handler:
  one call of \<open>update\<close> returns; when the outgoing snapshot equals the last-sent snapshot
  the node is unchanged, so nothing is handed to the transport; otherwise exactly one
  datagram is appended to the transport log, a unicast to the address of the entry at
  index 1 carrying all 80 bytes of the outgoing snapshot, and the last-sent snapshot
  becomes equal to the outgoing one.
\<close>

theorem slave_update_diffed_send:
  assumes "\<not> isMaster s" and "2 \<le> length (peers s)" and "\<not> masterHasCommand s"
    and "buffers_sized s"
  shows "update s millis1 millis2 =
           Some (Inr (if slaveSendData s = lastSlaveSendData s then s
                      else s\<lparr>tx := tx s @ [Unicast (peer_mac (peers s ! 1)) (slaveSendData s)],
                             lastSlaveSendData := slaveSendData s\<rparr>)) \<and>
         length (slaveSendData s) = 80"
  using assms
  by (simp add: update_def buffers_sized_def memcmp_differs_def memcpy_def sendUnicast_def
      esp_now_send_def Let_def)

theorem slave_update_diffed_send_witness:
  "\<not> isMaster ex_paired_slave \<and> 2 \<le> length (peers ex_paired_slave) \<and>
   \<not> masterHasCommand ex_paired_slave \<and> buffers_sized ex_paired_slave \<and>
   update ex_paired_slave 0 0 =
     Some (Inr (ex_paired_slave\<lparr>tx := [Unicast ex_master_mac ex_pressed],
                                lastSlaveSendData := ex_pressed\<rparr>))"
proof -
  have h1: "\<not> isMaster ex_paired_slave" by (simp add: ex_paired_slave_eq)
  have h2: "2 \<le> length (peers ex_paired_slave)" by (simp add: ex_paired_slave_eq)
  have h3: "\<not> masterHasCommand ex_paired_slave" by (simp add: ex_paired_slave_eq)
  have h4: "buffers_sized ex_paired_slave" by (simp add: ex_paired_slave_eq buffers_sized_def)
  from slave_update_diffed_send [OF h1 h2 h3 h4, of 0 0] h1 h2 h3 h4
  show ?thesis by (simp add: ex_paired_slave_eq)
qed

text \<open>
  C9. A slave whose directory holds exactly one entry: one call of \<open>update\<close> returns and
  hands no unicast to the transport. It hands over one broadcast, to the slave broadcast
  address, exactly when the millisecond counter read in the comparison is more than 100
  past the stored cadence timer (the difference of two 32-bit counters), and then the
  timer becomes the counter value read in the assignment; otherwise the node is unchanged.
\<close>

theorem slave_searching_broadcast_cadence:
  assumes "\<not> isMaster s" and "length (peers s) = 1"
  shows "update s millis1 millis2 =
           Some (Inr (if 100 < unat (millis1 - broadcastMillis s)
                      then s\<lparr>broadcastMillis := millis2,
                             tx := tx s @ [Broadcast BROADCAST_MAC_SLAVE 15]\<rparr>
                      else s))"
  using assms
  by (simp add: update_def sendBroadcast_def esp_now_send_def BROADCAST_SLAVE_MESSAGE_def
      word_less_nat_alt)

theorem slave_searching_broadcast_cadence_witness:
  "\<not> isMaster ex_searching_slave \<and> length (peers ex_searching_slave) = 1 \<and>
   update ex_searching_slave 101 102 =
     Some (Inr (ex_searching_slave\<lparr>broadcastMillis := 102,
                                   tx := [Broadcast BROADCAST_MAC_SLAVE 15]\<rparr>)) \<and>
   update ex_searching_slave 100 100 = Some (Inr ex_searching_slave)"
proof -
  have m: "\<not> isMaster ex_searching_slave"
    by (simp add: ex_searching_slave_def begin_emc_def emc_init_def resetData_def Let_def)
  have l: "length (peers ex_searching_slave) = 1"
    by (simp add: ex_searching_slave_def begin_emc_def emc_init_def resetData_def Let_def
        addPeer_cases)
  have z: "broadcastMillis ex_searching_slave = 0" "tx ex_searching_slave = []"
    by (simp_all add: ex_searching_slave_def begin_emc_def emc_init_def resetData_def Let_def)
  from slave_searching_broadcast_cadence [OF m l, of 101 102]
    slave_searching_broadcast_cadence [OF m l, of 100 100] m l z
  show ?thesis by simp
qed

text \<open>
  C5. The claim asks that a slave never reaches \<^verbatim>\<open>peers[1]\<close> with fewer than two
  directory entries. The early return of \<open>update\<close> tests for a size of exactly 1, so a slave
  with an empty directory (its \<open>begin\<close> returned early) whose outgoing snapshot has changed
  goes on to read \<^verbatim>\<open>peers[1]\<close> of an empty vector.
\<close>

theorem slave_unguarded_index_1:
  "\<not> isMaster ex_unstarted_slave \<and> length (peers ex_unstarted_slave) = 0 \<and>
   buffers_sized ex_unstarted_slave \<and>
   update ex_unstarted_slave 0 0 = Some (Inl IndexOutOfRange)"
  by (simp add: ex_unstarted_slave_def begin_emc_def emc_init_def update_def
      memcmp_differs_def buffers_sized_def)

section \<open>The peer directory\<close>

text \<open>
  C4. The claim asks that the \<open>peerID\<close> values of the entries present together are
  pairwise distinct and that an index is never given to a second peer. \<open>addPeer\<close> takes
  the current size of the vector as the new \<open>peerID\<close>, and the size shrinks on removal:
  after slaves a and b have joined (indices 1 and 2), a is evicted and c joins, c receives
  index 2 while b still holds it.
\<close>

theorem peerID_reused_after_removal:
  "map peerID (peers ex_master3) = [0, 1, 2] \<and>
   map peer_mac (peers ex_master3) = [BROADCAST_MAC_MASTER, ex_slave_a, ex_slave_b] \<and>
   map peerID (peers ex_rejoin_master) = [0, 2, 2] \<and>
   map peer_mac (peers ex_rejoin_master) = [BROADCAST_MAC_MASTER, ex_slave_b, ex_slave_c]"
  by (simp add: ex_rejoin_master_def ex_master3_eq ex_ping_def emc_defs ex_macs)

lemma find_peer_Some:
  "m \<in> peer_mac ` set ps \<Longrightarrow>
   \<exists>i. find_peer m ps = Some i \<and> i < length ps \<and> peer_mac (ps ! i) = m \<and>
       (\<forall>j<i. peer_mac (ps ! j) \<noteq> m)"
proof (induction ps)
  case Nil
  then show ?case by simp
next
  case (Cons p ps)
  show ?case
  proof (cases "peer_mac p = m")
    case True
    then show ?thesis by simp
  next
    case False
    with Cons.prems have "m \<in> peer_mac ` set ps" by auto
    from Cons.IH [OF this] obtain i where i: "find_peer m ps = Some i" "i < length ps"
      "peer_mac (ps ! i) = m" "\<forall>j<i. peer_mac (ps ! j) \<noteq> m" by blast
    have "\<forall>j<Suc i. peer_mac ((p # ps) ! j) \<noteq> m"
      using False i(4) by (auto simp: less_Suc_eq_0_disj)
    with False i show ?thesis by simp
  qed
qed

lemma find_peer_None: "m \<notin> peer_mac ` set ps \<Longrightarrow> find_peer m ps = None"
  by (induction ps) auto

lemma length_erase: "i < length xs \<Longrightarrow> Suc (length (erase xs i)) = length xs"
  by (simp add: erase_def) 

lemma caches_cleared_resetData: "caches_cleared (resetData s)"
  by (simp add: caches_cleared_def resetData_def memset_zero_def)

lemma removePeer_found:
  "find_peer m (peers s) = Some i \<Longrightarrow>
   removePeer s m = (resetData s)\<lparr>esp_peer_list := removeAll m (esp_peer_list s),
                                 peers := erase (peers s) i\<rparr>"
  by (simp add: removePeer_def resetData_def esp_now_del_peer_def Let_def)

lemma removePeer_not_found:
  "find_peer m (peers s) = None \<Longrightarrow> removePeer s m = resetData s"
  by (simp add: removePeer_def resetData_def Let_def)

lemma caches_cleared_removePeer: "caches_cleared (removePeer s m)"
  by (cases "find_peer m (peers s)")
     (simp_all add: removePeer_found removePeer_not_found caches_cleared_def resetData_def memset_zero_def)

text \<open>
  C3, as amended. A send-completion notification reporting failure leaves all five
  snapshot members (the outgoing snapshot, last-sent, the master's last-received, the
  command and the last command) zeroed, for every node and every address. When the address
  has an entry in the directory, the first entry with that address is erased, the other
  entries keep their order and the directory is one entry shorter; when it has none, the
  directory is as before.
\<close>

theorem send_failure_evicts_peer:
  "caches_cleared (onSend s mac_addr ESP_NOW_SEND_FAIL) \<and>
   (mac_addr \<in> peer_mac ` set (peers s) \<longrightarrow>
      (\<exists>i. i < length (peers s) \<and> peer_mac (peers s ! i) = mac_addr \<and>
           (\<forall>j<i. peer_mac (peers s ! j) \<noteq> mac_addr) \<and>
           peers (onSend s mac_addr ESP_NOW_SEND_FAIL) = erase (peers s) i \<and>
           Suc (length (peers (onSend s mac_addr ESP_NOW_SEND_FAIL))) = length (peers s))) \<and>
   (mac_addr \<notin> peer_mac ` set (peers s) \<longrightarrow>
      peers (onSend s mac_addr ESP_NOW_SEND_FAIL) = peers s)"
proof (intro conjI impI)
  show "caches_cleared (onSend s mac_addr ESP_NOW_SEND_FAIL)"
    by (simp add: onSend_def caches_cleared_removePeer)
next
  assume "mac_addr \<in> peer_mac ` set (peers s)"
  from find_peer_Some [OF this] obtain i where i: "find_peer mac_addr (peers s) = Some i"
    "i < length (peers s)" "peer_mac (peers s ! i) = mac_addr"
    "\<forall>j<i. peer_mac (peers s ! j) \<noteq> mac_addr" by blast
  have "peers (onSend s mac_addr ESP_NOW_SEND_FAIL) = erase (peers s) i"
    by (simp add: onSend_def removePeer_found [OF i(1)])
  then show "\<exists>i. i < length (peers s) \<and> peer_mac (peers s ! i) = mac_addr \<and>
           (\<forall>j<i. peer_mac (peers s ! j) \<noteq> mac_addr) \<and>
           peers (onSend s mac_addr ESP_NOW_SEND_FAIL) = erase (peers s) i \<and>
           Suc (length (peers (onSend s mac_addr ESP_NOW_SEND_FAIL))) = length (peers s)"
    using i(2,3,4) length_erase [OF i(2)] by auto
next
  assume "mac_addr \<notin> peer_mac ` set (peers s)"
  then show "peers (onSend s mac_addr ESP_NOW_SEND_FAIL) = peers s"
    by (simp add: onSend_def removePeer_not_found find_peer_None resetData_def)
qed

theorem send_failure_evicts_peer_witness:
  "ex_slave_b \<in> peer_mac ` set (peers ex_busy_master) \<and>
   ex_slave_c \<notin> peer_mac ` set (peers ex_busy_master) \<and>
   \<not> caches_cleared ex_busy_master \<and>
   length (peers ex_busy_master) = 3 \<and>
   length (peers (onSend ex_busy_master ex_slave_b ESP_NOW_SEND_FAIL)) = 2 \<and>
   caches_cleared (onSend ex_busy_master ex_slave_b ESP_NOW_SEND_FAIL) \<and>
   peers (onSend ex_busy_master ex_slave_c ESP_NOW_SEND_FAIL) = peers ex_busy_master \<and>
   caches_cleared (onSend ex_busy_master ex_slave_c ESP_NOW_SEND_FAIL)"
proof -
  have h: "ex_slave_b \<in> peer_mac ` set (peers ex_busy_master)"
    by (simp add: ex_busy_master_eq)
  have a: "ex_slave_c \<notin> peer_mac ` set (peers ex_busy_master)"
    by (simp add: ex_busy_master_eq ex_macs)
  have n: "\<not> caches_cleared ex_busy_master"
    by (simp add: ex_busy_master_eq caches_cleared_def)
  have l: "length (peers ex_busy_master) = 3" by (simp add: ex_busy_master_eq)
  from send_failure_evicts_peer [of ex_busy_master ex_slave_b]
    send_failure_evicts_peer [of ex_busy_master ex_slave_c] h a n l
  show ?thesis by auto
qed

text \<open>
  C3, as stated, for every address. A master with the entries broadcast, a, b receives the
  failure notification for a twice, as happens when two unicasts to a were in flight: the
  first notification leaves two entries, and the second, whose address has no entry any
  more, leaves two entries again. Likewise a notification for c, which never had an entry,
  leaves all three.
\<close>

theorem send_failure_absent_address_keeps_size:
  "length (peers (onSend ex_master3 ex_slave_a ESP_NOW_SEND_FAIL)) = 2 \<and>
   length (peers (onSend (onSend ex_master3 ex_slave_a ESP_NOW_SEND_FAIL) ex_slave_a
                    ESP_NOW_SEND_FAIL)) = 2 \<and>
   length (peers ex_master3) = 3 \<and>
   length (peers (onSend ex_master3 ex_slave_c ESP_NOW_SEND_FAIL)) = 3"
  by (simp add: ex_master3_eq emc_defs ex_macs)

text \<open>
  C10. \<open>removePeer\<close> leaves all five snapshot members zeroed whatever the address; when
  the address matches no entry it does nothing but \<open>resetData\<close>, so the directory and the
  driver's table are as before.
\<close>

theorem removePeer_clears_caches:
  "caches_cleared (removePeer s m) \<and>
   (m \<notin> peer_mac ` set (peers s) \<longrightarrow>
      removePeer s m = resetData s \<and> peers (removePeer s m) = peers s \<and>
      esp_peer_list (removePeer s m) = esp_peer_list s)"
  by (auto simp: caches_cleared_removePeer removePeer_not_found find_peer_None resetData_def)

theorem removePeer_clears_caches_witness:
  "ex_slave_a \<notin> peer_mac ` set (peers ex_paired_slave) \<and>
   caches_cleared (removePeer ex_paired_slave ex_slave_a) \<and>
   slaveSendData ex_paired_slave = ex_pressed \<and>
   slaveSendData (removePeer ex_paired_slave ex_slave_a) = replicate 80 0 \<and>
   peers (removePeer ex_paired_slave ex_slave_a) = peers ex_paired_slave"
proof -
  have h: "ex_slave_a \<notin> peer_mac ` set (peers ex_paired_slave)"
    by (simp add: ex_paired_slave_eq ex_macs)
  note t = removePeer_clears_caches [of ex_paired_slave ex_slave_a]
  from t have c: "caches_cleared (removePeer ex_paired_slave ex_slave_a)" by blast
  from t h have p: "peers (removePeer ex_paired_slave ex_slave_a) = peers ex_paired_slave"
    by blast
  have s: "slaveSendData ex_paired_slave = ex_pressed" by (simp add: ex_paired_slave_eq)
  from c have z: "slaveSendData (removePeer ex_paired_slave ex_slave_a) = replicate 80 0"
    by (simp add: caches_cleared_def)
  show ?thesis using h c p s z by blast
qed

text \<open>
  C6. On a node whose directory agrees with the driver's table, \<open>addPeer\<close> with an
  address that is in the directory changes nothing; and for every address a second
  \<open>addPeer\<close> with the same address changes nothing after the first, so the directory has
  the size a single \<open>addPeer\<close> gives.
\<close>

theorem addPeer_idempotent:
  assumes "dir_registered s"
  shows "(peer_addr \<in> peer_mac ` set (peers s) \<longrightarrow> addPeer s peer_addr = s) \<and>
         addPeer (addPeer s peer_addr) peer_addr = addPeer s peer_addr \<and>
         length (peers (addPeer (addPeer s peer_addr) peer_addr)) =
           length (peers (addPeer s peer_addr))"
proof -
  have "addPeer s peer_addr = s" if "peer_addr \<in> peer_mac ` set (peers s)"
  proof -
    from that assms have "peer_addr \<in> set (esp_peer_list s)"
      by (auto simp: dir_registered_def)
    then show ?thesis by (simp add: addPeer_cases)
  qed
  moreover have "addPeer (addPeer s peer_addr) peer_addr = addPeer s peer_addr"
    by (simp add: addPeer_cases)
  ultimately show ?thesis by simp
qed

theorem addPeer_idempotent_witness:
  "dir_registered ex_paired_slave \<and> ex_master_mac \<in> peer_mac ` set (peers ex_paired_slave) \<and>
   addPeer ex_paired_slave ex_master_mac = ex_paired_slave \<and>
   length (peers (addPeer (addPeer ex_paired_slave ex_slave_a) ex_slave_a)) = 3"
proof -
  have d: "dir_registered ex_paired_slave"
    by (simp add: ex_paired_slave_eq dir_registered_def ex_macs)
  have h: "ex_master_mac \<in> peer_mac ` set (peers ex_paired_slave)"
    by (simp add: ex_paired_slave_eq)
  have l: "length (peers (addPeer ex_paired_slave ex_slave_a)) = 3"
    by (simp add: ex_paired_slave_eq addPeer_cases ex_macs)
  from addPeer_idempotent [OF d, of ex_master_mac] addPeer_idempotent [OF d, of ex_slave_a] d h l
  show ?thesis by simp
qed

section \<open>onReceive\<close>

text \<open>
  C7. On a master a payload of 80 bytes leaves \<open>masterRecvData\<close> equal to the payload and
  a payload of any other length leaves it as it was; on a slave a payload of 12 bytes
  leaves \<open>masterCmdData\<close> equal to the payload and any other length leaves it as it was.
  \<open>onReceive\<close> has no failure result: it returns a node for every datagram.
\<close>

theorem onReceive_updates_cache:
  assumes "buffers_sized s"
  shows "(isMaster s \<longrightarrow>
            masterRecvData (onReceive s recv_info data) =
              (if length data = 80 then data else masterRecvData s)) \<and>
         (\<not> isMaster s \<longrightarrow>
            masterCmdData (onReceive s recv_info data) =
              (if length data = 12 then data else masterCmdData s))"
proof -
  from assms have r: "length (masterRecvData s) = 80" and c: "length (masterCmdData s) = 12"
    by (simp_all add: buffers_sized_def)
  show ?thesis
    using r c by (auto simp: onReceive_def Let_def memcmp_differs_def memcpy_def)
qed

theorem onReceive_updates_cache_witness:
  "buffers_sized ex_master3 \<and> isMaster ex_master3 \<and>
   masterRecvData (onReceive ex_master3 (ex_ping ex_slave_a) ex_pressed) = ex_pressed \<and>
   masterRecvData (onReceive ex_master3 (ex_ping ex_slave_a) (replicate 15 0)) =
     masterRecvData ex_master3 \<and>
   buffers_sized ex_paired_slave \<and> \<not> isMaster ex_paired_slave \<and>
   masterCmdData (onReceive ex_paired_slave (ex_ping ex_slave_a) (replicate 80 7)) =
     masterCmdData ex_paired_slave"
proof -
  have b: "buffers_sized ex_master3" by (simp add: ex_master3_eq buffers_sized_def)
  have m: "isMaster ex_master3" by (simp add: ex_master3_eq)
  have b': "buffers_sized ex_paired_slave" by (simp add: ex_paired_slave_eq buffers_sized_def)
  have m': "\<not> isMaster ex_paired_slave" by (simp add: ex_paired_slave_eq)
  from onReceive_updates_cache [OF b, of "ex_ping ex_slave_a" ex_pressed]
    onReceive_updates_cache [OF b, of "ex_ping ex_slave_a" "replicate 15 0"]
    onReceive_updates_cache [OF b', of "ex_ping ex_slave_a" "replicate 80 7"]
    b m b' m'
  show ?thesis by simp
qed

section \<open>update on a master\<close>

text \<open>
  The send loop on a directory of at most 255 entries ends, having handed one unicast of
  the command snapshot to the transport for each entry from the counter onwards; and
  whenever the loop ends, the directory had at most 255 entries and only the transport
  log has changed.
\<close>

lemma master_loop_sends:
  "length (peers s) \<le> 255 \<Longrightarrow>
   update_master_loop i s =
     Some (s\<lparr>tx := tx s @ map (\<lambda>p. Unicast (peer_mac p) (take 12 (masterCmdData s)))
                           (drop (unat i) (peers s))\<rparr>)"
proof (induction "length (peers s) - unat i" arbitrary: i s)
  case 0
  then show ?case
    by (subst update_master_loop.simps) simp
next
  case (Suc n)
  have lt: "unat i < length (peers s)" using Suc.hyps(2) by simp
  then have i255: "unat i < 255" using Suc.prems by simp
  have ui: "unat (i + 1) = Suc (unat i)"
    using i255 by (simp add: unat_word_ariths)
  let ?s' = "sendUnicast s (peer_mac (peers s ! unat i)) (masterCmdData s)
               (sizeof_struct master_cmd_t)"
  have ps: "peers ?s' = peers s" and cmd: "masterCmdData ?s' = masterCmdData s"
    by (simp_all add: sendUnicast_def esp_now_send_def)
  have n: "n = length (peers ?s') - unat (i + 1)"
    using Suc.hyps(2) ui ps by simp
  have le: "length (peers ?s') \<le> 255" using Suc.prems ps by simp
  have IH: "update_master_loop (i + 1) ?s' =
     Some (?s'\<lparr>tx := tx ?s' @ map (\<lambda>p. Unicast (peer_mac p) (take 12 (masterCmdData ?s')))
                           (drop (unat (i + 1)) (peers ?s'))\<rparr>)"
    by (rule Suc.hyps(1) [OF n le])
  have dr: "drop (unat i) (peers s) = peers s ! unat i # drop (Suc (unat i)) (peers s)"
    using lt by (simp add: Cons_nth_drop_Suc)
  show ?case
    apply (subst update_master_loop.simps)
    apply (simp only: lt if_True IH)
    apply (simp add: ps cmd ui dr sendUnicast_def esp_now_send_def)
    done
qed

lemma master_loop_returns:
  "update_master_loop i s = Some s' \<Longrightarrow>
   length (peers s) \<le> 255 \<and> s'\<lparr>tx := tx s\<rparr> = s"
proof (induction rule: update_master_loop.raw_induct [rotated 1, consumes 1])
  case (1 loop i s s')
  show ?case
  proof (cases "unat i < length (peers s)")
    case True
    let ?s1 = "sendUnicast s (peer_mac (peers s ! unat i)) (masterCmdData s)
                (sizeof_struct master_cmd_t)"
    from True 1(2) have "loop (i + 1) ?s1 = Some s'" by simp
    from 1(1) [OF this] have a: "length (peers ?s1) \<le> 255" and b: "s'\<lparr>tx := tx ?s1\<rparr> = ?s1"
      by simp_all
    from b have "(s'\<lparr>tx := tx ?s1\<rparr>)\<lparr>tx := tx s\<rparr> = ?s1\<lparr>tx := tx s\<rparr>" by simp
    then have "s'\<lparr>tx := tx s\<rparr> = s" by (simp add: sendUnicast_def esp_now_send_def)
    with a show ?thesis by (simp add: sendUnicast_def esp_now_send_def)
  next
    case False
    have "unat i \<le> 255" using unsigned_less [of i, where ?'a = nat] by simp
    with False 1(2) show ?thesis by simp
  qed
qed

section \<open>Invariants of the reachable nodes\<close>

text \<open>
  Every reachable node keeps its snapshot members at their declared sizes, keeps its
  directory free of repeated addresses and registered with the driver, and keeps the
  driver's table within its capacity. So the directory never has more entries than the
  driver's table can hold.
\<close>

lemma node_inv_emc_init: "node_inv (emc_init cap)"
  by (simp add: node_inv_def buffers_sized_def dir_registered_def emc_init_def)

lemma node_inv_resetData: "node_inv s \<Longrightarrow> node_inv (resetData s)"
  by (simp add: node_inv_def buffers_sized_def dir_registered_def resetData_def memset_zero_def)

lemma node_inv_addPeer: "node_inv s \<Longrightarrow> node_inv (addPeer s a)"
  by (auto simp: node_inv_def buffers_sized_def dir_registered_def addPeer_cases)

lemma erase_distinct:
  assumes "i < length ps" and "peer_mac (ps ! i) = m" and "distinct (map peer_mac ps)"
  shows "distinct (map peer_mac (erase ps i)) \<and>
         set (map peer_mac (erase ps i)) = set (map peer_mac ps) - {m}"
proof -
  have ps: "ps = take i ps @ ps ! i # drop (Suc i) ps"
    using assms(1) by (rule id_take_nth_drop)
  from assms(3) have "distinct (map peer_mac (take i ps @ ps ! i # drop (Suc i) ps))"
    using ps by simp
  then have d: "distinct (map peer_mac (take i ps) @ map peer_mac (drop (Suc i) ps))"
    and n: "m \<notin> set (map peer_mac (take i ps))" "m \<notin> set (map peer_mac (drop (Suc i) ps))"
    using assms(2) by auto
  have "set (map peer_mac ps) =
        set (map peer_mac (take i ps)) \<union> {m} \<union> set (map peer_mac (drop (Suc i) ps))"
    by (subst ps) (simp add: assms(2))
  with d n show ?thesis by (auto simp: erase_def)
qed

lemma node_inv_removePeer: 
  assumes "node_inv s" shows "node_inv (removePeer s m)"
proof (cases "find_peer m (peers s)")
  case None
  then show ?thesis using assms by (simp add: removePeer_not_found node_inv_resetData)
next
  case (Some i)
  have "m \<in> peer_mac ` set (peers s)"
    using Some find_peer_None by fastforce
  from find_peer_Some [OF this] Some have i: "i < length (peers s)" "peer_mac (peers s ! i) = m"
    by auto
  from assms have d: "distinct (map peer_mac (peers s))" by (simp add: node_inv_def dir_registered_def)
  note e = erase_distinct [OF i d]
  have le: "length (removeAll m (esp_peer_list s)) \<le> length (esp_peer_list s)"
    by simp
  show ?thesis
    using assms e le
    by (auto simp: removePeer_found [OF Some] node_inv_def buffers_sized_def dir_registered_def
        resetData_def memset_zero_def simp del: length_removeAll_less_eq)
qed

lemma node_inv_sendBroadcast: "node_inv s \<Longrightarrow> node_inv (sendBroadcast s)"
  by (simp add: node_inv_def buffers_sized_def dir_registered_def)

lemma node_inv_fields:
  "node_inv s \<Longrightarrow> node_inv (s\<lparr>isMaster := b\<rparr>)"
  "node_inv s \<Longrightarrow> node_inv (s\<lparr>masterHasCommand := b\<rparr>)"
  "node_inv s \<Longrightarrow> node_inv (s\<lparr>tx := l\<rparr>)"
  "node_inv s \<Longrightarrow> node_inv (s\<lparr>broadcastMillis := t\<rparr>)"
  "node_inv s \<Longrightarrow> length d = 80 \<Longrightarrow> node_inv (s\<lparr>slaveSendData := d\<rparr>)"
  "node_inv s \<Longrightarrow> length d = 80 \<Longrightarrow> node_inv (s\<lparr>lastSlaveSendData := d\<rparr>)"
  "node_inv s \<Longrightarrow> length d = 80 \<Longrightarrow> node_inv (s\<lparr>masterRecvData := d\<rparr>)"
  "node_inv s \<Longrightarrow> length d = 12 \<Longrightarrow> node_inv (s\<lparr>masterCmdData := d\<rparr>)"
  "node_inv s \<Longrightarrow> length d = 12 \<Longrightarrow> node_inv (s\<lparr>lastmasterCmdData := d\<rparr>)"
  by (simp_all add: node_inv_def buffers_sized_def dir_registered_def)

lemma node_inv_begin_emc: "node_inv s \<Longrightarrow> node_inv (begin_emc s is_master init_ok)"
  by (cases init_ok; cases is_master)
     (simp_all add: begin_emc_def Let_def node_inv_resetData node_inv_addPeer node_inv_fields)

lemma node_inv_onSend: "node_inv s \<Longrightarrow> node_inv (onSend s a status)"
  by (simp add: onSend_def node_inv_removePeer)

lemma node_inv_onReceive:
  assumes "node_inv s"
  shows "node_inv (onReceive s recv_info d)"
proof (cases "isMaster s")
  case True
  define s1 where "s1 =
    (if des_addr recv_info = BROADCAST_MAC_SLAVE then
       (let s' = sendBroadcast s in
        if \<not> esp_now_is_peer_exist s' (src_addr recv_info)
        then addPeer s' (src_addr recv_info) else s')
     else s)"
  have s1: "node_inv s1"
    using assms by (simp add: s1_def Let_def node_inv_addPeer node_inv_sendBroadcast)
  have "onReceive s recv_info d =
     (if length d = 80 then
        (if memcmp_differs (masterRecvData s1) d 80
         then s1\<lparr>masterRecvData := memcpy d 80\<rparr> else s1)
      else s1)"
    using True by (simp add: onReceive_def s1_def Let_def)
  then show ?thesis using s1 by (simp add: node_inv_fields memcpy_def)
next
  case False
  define s1 where "s1 =
    (if des_addr recv_info = BROADCAST_MAC_MASTER then
       (if \<not> esp_now_is_peer_exist s (src_addr recv_info)
        then addPeer s (src_addr recv_info) else s)
     else s)"
  have s1: "node_inv s1"
    using assms by (simp add: s1_def node_inv_addPeer)
  have "onReceive s recv_info d =
     (if length d = 12 then
        (if memcmp_differs (masterCmdData s1) d 12
         then s1\<lparr>masterCmdData := memcpy d 12, masterHasCommand := False\<rparr>
         else s1\<lparr>masterHasCommand := False\<rparr>)
      else s1)"
    using False by (simp add: onReceive_def s1_def Let_def)
  then show ?thesis using s1 by (simp add: node_inv_fields memcpy_def)
qed

lemma node_inv_update:
  assumes "node_inv s" and "update s millis1 millis2 = Some (Inr s')"
  shows "node_inv s'"
proof (cases "isMaster s")
  case True
  with assms(2) obtain r where r: "update_master_loop 1 s = Some r" and "s' = r"
    by (auto simp: update_def)
  from master_loop_returns [OF r] have "r\<lparr>tx := tx s\<rparr> = s" by simp
  then have "node_inv (r\<lparr>tx := tx s\<rparr>)" using assms(1) by simp
  then have "node_inv ((r\<lparr>tx := tx s\<rparr>)\<lparr>tx := tx r\<rparr>)" by (rule node_inv_fields)
  then show ?thesis using \<open>s' = r\<close> by simp
next
  case False
  from assms(1) have l: "length (slaveSendData s) = 80"
    by (simp add: node_inv_def buffers_sized_def)
  from assms(2) False have
    "s' = s \<or> s' = sendBroadcast (s\<lparr>broadcastMillis := millis2\<rparr>) \<or>
     s' = (sendUnicast s (peer_mac (peers s ! 1)) (slaveSendData s) 80)
            \<lparr>lastSlaveSendData := take 80 (slaveSendData s)\<rparr>"
    by (auto simp: update_def Let_def memcpy_def sendUnicast_def esp_now_send_def
        split: if_splits)
  then show ?thesis
    using assms(1) l
    by (auto simp: node_inv_fields node_inv_sendBroadcast sendUnicast_def esp_now_send_def)
qed

theorem reachable_node_inv: "reachable s \<Longrightarrow> node_inv s"
proof (induction rule: reachable.induct)
  case (constructed cap)
  show ?case by (rule node_inv_emc_init)
next
  case (began s is_master init_ok)
  then show ?case by (simp add: node_inv_begin_emc)
next
  case (added s a)
  then show ?case by (simp add: node_inv_addPeer)
next
  case (removed s a)
  then show ?case by (simp add: node_inv_removePeer)
next
  case (updated s millis1 millis2 s')
  then show ?case by (blast intro: node_inv_update)
next
  case (received s recv_info d)
  then show ?case by (simp add: node_inv_onReceive)
next
  case (sent s a status)
  then show ?case by (simp add: node_inv_onSend)
next
  case (scanned s d)
  then show ?case by (simp add: node_inv_fields)
next
  case (commanded s d)
  then show ?case by (simp add: node_inv_fields)
next
  case (consumed s)
  then show ?case by (simp add: node_inv_def buffers_sized_def dir_registered_def)
qed

lemma dir_registered_length:
  assumes "dir_registered s"
  shows "length (peers s) \<le> length (esp_peer_list s)"
proof -
  from assms have d: "distinct (map peer_mac (peers s))"
    and sub: "set (map peer_mac (peers s)) \<subseteq> set (esp_peer_list s)"
    by (simp_all add: dir_registered_def)
  have "length (peers s) = card (set (map peer_mac (peers s)))"
    using distinct_card [OF d] by simp
  also have "\<dots> \<le> card (set (esp_peer_list s))"
    by (rule card_mono [OF _ sub]) simp
  also have "\<dots> \<le> length (esp_peer_list s)" by (rule card_length)
  finally show ?thesis .
qed

lemma reachable_directory_bounded:
  "reachable s \<Longrightarrow> length (peers s) \<le> esp_max_peers s"
  using reachable_node_inv [of s] dir_registered_length [of s]
  by (simp add: node_inv_def)

section \<open>The example nodes are reachable\<close>

lemma ex_paired_slave_reachable: "reachable ex_paired_slave"
  unfolding ex_paired_slave_def
  by (intro reachable.scanned reachable.added reachable.began reachable.constructed) simp

lemma ex_searching_slave_reachable: "reachable ex_searching_slave"
  unfolding ex_searching_slave_def
  by (intro reachable.began reachable.constructed)

lemma ex_unstarted_slave_reachable: "reachable ex_unstarted_slave"
  unfolding ex_unstarted_slave_def
  by (intro reachable.scanned reachable.began reachable.constructed) simp

lemma ex_master3_reachable: "reachable ex_master3"
  unfolding ex_master3_def
  by (intro reachable.received reachable.began reachable.constructed)

lemma ex_rejoin_master_reachable: "reachable ex_rejoin_master"
  unfolding ex_rejoin_master_def
  by (intro reachable.received reachable.sent ex_master3_reachable)

lemma ex_busy_master_reachable: "reachable ex_busy_master"
  unfolding ex_busy_master_def
  by (intro reachable.received reachable.commanded ex_master3_reachable)
     (simp add: ex_cmd_def)

section \<open>update on a reachable master\<close>

text \<open>
  On a master whose directory holds at most 255 entries and whose snapshot members have
  their declared sizes, \<open>update\<close> returns after the send loop has run from index 1.
\<close>

lemma master_update_sends:
  assumes "isMaster s" and "length (peers s) \<le> 255" and "buffers_sized s"
  shows "update s millis1 millis2 =
           Some (Inr (s\<lparr>tx := tx s @ map (\<lambda>p. Unicast (peer_mac p) (masterCmdData s))
                                         (tl (peers s))\<rparr>)) \<and>
         length (masterCmdData s) = 12"
proof -
  from assms(3) have l: "length (masterCmdData s) = 12" by (simp add: buffers_sized_def)
  have "update s millis1 millis2 = map_option Inr (update_master_loop 1 s)"
    using assms(1) by (simp add: update_def)
  then show ?thesis
    using master_loop_sends [OF assms(2), of 1] l by (simp add: drop_Suc)
qed

text \<open>
  C2. Every master the program can reach, whatever its directory holds, on a driver whose
  peer table has room for at most 255 addresses (the ESP-NOW driver's table is smaller):
  one call of \<open>update\<close> returns, and what it hands to the transport is exactly one unicast
  of the 12-byte command snapshot to each entry at index 1 and above, in directory order,
  and nothing to the entry at index 0. Neither the previous command nor the last-command
  copy enters the result, so nothing is suppressed when the command is unchanged.
\<close>

theorem master_update_unicasts_every_peer:
  assumes "reachable s" and "esp_max_peers s \<le> 255" and "isMaster s"
  shows "update s millis1 millis2 =
           Some (Inr (s\<lparr>tx := tx s @ map (\<lambda>p. Unicast (peer_mac p) (masterCmdData s))
                                         (tl (peers s))\<rparr>)) \<and>
         length (masterCmdData s) = 12"
proof -
  from reachable_node_inv [OF assms(1)] have b: "buffers_sized s"
    by (simp add: node_inv_def)
  from reachable_directory_bounded [OF assms(1)] assms(2) have l: "length (peers s) \<le> 255"
    by simp
  show ?thesis by (rule master_update_sends [OF assms(3) l b])
qed

theorem master_update_unicasts_every_peer_witness:
  "reachable ex_busy_master \<and> esp_max_peers ex_busy_master \<le> 255 \<and> isMaster ex_busy_master \<and>
   update ex_busy_master 0 0 =
     Some (Inr (ex_busy_master
                  \<lparr>tx := tx ex_busy_master @
                           [Unicast ex_slave_a ex_cmd, Unicast ex_slave_b ex_cmd]\<rparr>)) \<and>
   update (ex_busy_master\<lparr>lastmasterCmdData := masterCmdData ex_busy_master\<rparr>) 0 0 =
     Some (Inr (ex_busy_master
                  \<lparr>lastmasterCmdData := ex_cmd,
                   tx := tx ex_busy_master @
                           [Unicast ex_slave_a ex_cmd, Unicast ex_slave_b ex_cmd]\<rparr>))"
proof -
  let ?s' = "ex_busy_master\<lparr>lastmasterCmdData := masterCmdData ex_busy_master\<rparr>"
  have r: "reachable ex_busy_master" by (rule ex_busy_master_reachable)
  have c: "esp_max_peers ex_busy_master \<le> 255" by (simp add: ex_busy_master_eq)
  have m: "isMaster ex_busy_master" by (simp add: ex_busy_master_eq)
  have r': "reachable ?s'" by (rule reachable.consumed [OF r])
  have c': "esp_max_peers ?s' \<le> 255" by (simp add: ex_busy_master_eq)
  have m': "isMaster ?s'" by (simp add: ex_busy_master_eq)
  from master_update_unicasts_every_peer [OF r c m, of 0 0]
    master_update_unicasts_every_peer [OF r' c' m', of 0 0] r c m
  show ?thesis by (simp add: ex_busy_master_eq)
qed

end
